theory Spec2Isabelle
  imports Main "HOL-Library.Word"
begin

section \<open>The glyph RPC of the remote demo\<close>

text \<open>
  The rasterizer process (function \<open>gpu\<close>) asks the renderer process (function
  \<open>renderer\<close>) for glyph data over two pipes. A request is one fixed-size record
  \<open>Op\<close>; a response is the same record, overwritten in place, followed for two of the
  four opcodes by trailing bytes. The client is class \<open>RemoteScalerContextFIFO\<close>, the
  server is the loop at the end of \<open>renderer\<close>; both are in \<open>tools/remote_demo.cpp\<close>.
\<close>

subsection \<open>Bytes, buffers and the types declared outside the file\<close>

type_synonym byte = "8 word"

text \<open>
  The memory that follows the fixed frame in a buffer: index \<open>i\<close> is the byte at
  \<open>buffer + sizeof(Op) + i\<close>. The code never compares an index with the capacity of
  the array, so the model does not either; \<open>kBufferSize\<close> below is the capacity.
\<close>

type_synonym region = "nat \<Rightarrow> byte"

definition store :: "byte list \<Rightarrow> region \<Rightarrow> region" where
  "store bs m = (\<lambda>i. if i < length bs then bs ! i else m i)"

definition load :: "nat \<Rightarrow> region \<Rightarrow> byte list" where
  "load n m = map m [0..<n]"

definition kPageSize :: nat where
  "kPageSize = 4096"

definition kBufferSize :: nat where
  "kBufferSize = 1024 * kPageSize"

text \<open>\<open>sizeof(fBuffer)\<close> for \<open>uint8_t fBuffer[1024 * kPageSize]\<close>.\<close>

definition sizeof_fBuffer :: nat where
  "sizeof_fBuffer = 1024 * kPageSize"

text \<open>
  Modelled from the spec: \<open>SkScalerContextRecDescriptor\<close> is declared outside src/. The
  spec calls it a self-contained encoding of the rendering parameters that both ends
  treat as an opaque equality key; the constructor \<open>Op(rec) : descriptor{rec}\<close> builds it
  from the parameters \<open>rec\<close>.
\<close>

datatype 'rec SkScalerContextRecDescriptor = SkScalerContextRecDescriptor 'rec

text \<open>
  Modelled from the spec: \<open>SkTypefaceProxy\<close> is declared outside src/; the code only
  calls \<open>fontID()\<close> on it, an opaque integer identifying the font (\<open>SkFontID\<close>).
\<close>

record SkTypefaceProxy =
  fontID :: "32 word"

text \<open>
  Modelled from the spec: \<open>SkGlyph\<close> is declared outside src/. The code uses its members
  \<open>fImage\<close> (where the pixels go), \<open>fHeight\<close> and \<open>rowBytes()\<close>; the spec names
  \<open>rowBytes\<close> and \<open>height\<close> as the image dimensions reported in the glyph metrics. All
  other members (glyph identifier, advance, bounds) are the extension of the record.
  Sizes are natural numbers: the declarations that fix their widths are not in src/.
\<close>

record SkGlyph =
  fImage :: nat
  fHeight :: nat
  rowBytes :: nat

subsection \<open>The wire frame: class Op\<close>

text \<open>
  The anonymous union of \<open>Op\<close> holds the font metrics (op 0), a glyph (op 1 and 2) or
  the pair \<open>glyphId\<close>, \<open>pathSize\<close> (op 3). The value records the member written last.
\<close>

datatype ('fm, 'g) payload =
    FontMetricsU 'fm
  | GlyphU "'g SkGlyph_scheme"
  | PathU "16 word" nat

record ('fm, 'g, 'rec) Op =
  op :: "32 word"
  typeface_id :: "32 word"
  payload :: "('fm, 'g) payload"
  descriptor :: "'rec SkScalerContextRecDescriptor"

text \<open>
  What the build fixes and src/ does not show. \<open>sizeof_rest\<close> is the size of the union,
  the descriptor and any padding of \<open>Op\<close>. The four \<open>pun\<close> functions give the value a
  union member has when another member was written last (the bytes are shared, their
  reading depends on the layout). \<open>SK_DEBUG\<close> says whether assertions are compiled in.
  \<open>writeToMemory\<close> and \<open>readFromMemory\<close> are the path encoder and decoder of
  \<open>SkPath\<close>: the bytes written at the pointer (their number is the return value), and
  the path decoded from a pointer and a length.
\<close>

record ('fm, 'g, 'p) platform =
  sizeof_rest :: nat
  sizeof_size_t :: nat
  SK_DEBUG :: bool
  pun_fontMetrics :: "('fm, 'g) payload \<Rightarrow> 'fm"
  pun_glyph :: "('fm, 'g) payload \<Rightarrow> 'g SkGlyph_scheme"
  pun_glyphId :: "('fm, 'g) payload \<Rightarrow> 16 word"
  pun_pathSize :: "('fm, 'g) payload \<Rightarrow> nat"
  writeToMemory :: "'p \<Rightarrow> byte list"
  readFromMemory :: "region \<Rightarrow> nat \<Rightarrow> 'p"

text \<open>\<open>sizeof(Op)\<close>: the fields \<open>int32_t op\<close> and \<open>SkFontID typeface_id\<close>, then the rest.\<close>

definition sizeof_Op :: "('fm, 'g, 'p) platform \<Rightarrow> nat" where
  "sizeof_Op pl = 4 + 4 + sizeof_rest pl"

text \<open>Reading the union members: \<open>op->fontMetrics\<close>, \<open>op->glyph\<close>, \<open>op->glyphId\<close>, \<open>op->pathSize\<close>.\<close>

fun fontMetrics :: "('fm, 'g, 'p) platform \<Rightarrow> ('fm, 'g) payload \<Rightarrow> 'fm" where
  "fontMetrics pl (FontMetricsU m) = m"
| "fontMetrics pl u = pun_fontMetrics pl u"

fun glyph :: "('fm, 'g, 'p) platform \<Rightarrow> ('fm, 'g) payload \<Rightarrow> 'g SkGlyph_scheme" where
  "glyph pl (GlyphU g) = g"
| "glyph pl u = pun_glyph pl u"

fun glyphId :: "('fm, 'g, 'p) platform \<Rightarrow> ('fm, 'g) payload \<Rightarrow> 16 word" where
  "glyphId pl (PathU i n) = i"
| "glyphId pl u = pun_glyphId pl u"

fun pathSize :: "('fm, 'g, 'p) platform \<Rightarrow> ('fm, 'g) payload \<Rightarrow> nat" where
  "pathSize pl (PathU i n) = n"
| "pathSize pl u = pun_pathSize pl u"


definition set_pathSize ::
  "('fm, 'g, 'p) platform \<Rightarrow> nat \<Rightarrow> ('fm, 'g) payload \<Rightarrow> ('fm, 'g) payload" where
  "set_pathSize pl n u = PathU (glyphId pl u) n"

text \<open>
  A buffer (\<open>fBuffer\<close> of the client, \<open>glyphBuffer\<close> of the server): its address, the
  \<open>Op\<close> at its start and the memory behind the \<open>Op\<close>.
\<close>

record ('fm, 'g, 'rec) buffer =
  base :: nat
  frame :: "('fm, 'g, 'rec) Op"
  trailing :: region

subsection \<open>System calls\<close>

text \<open>
  The calls a role issues, with the descriptor and the byte count it asks for.
\<close>

datatype syscall = SysRead int nat | SysWrite int nat | SysClose int

text \<open>
  What a \<open>read\<close> on a pipe gives: an error (the call returns -1), end of stream (0), or
  data. Data is given as the \<open>Op\<close> that the start of the buffer holds after the read
  and the bytes that arrived behind it. A fixed frame is written by one \<open>write\<close> and
  arrives whole; the trailing bytes that arrive with it may be fewer than the peer
  wrote, and the rest stays in the pipe. A read that never returns is the absence of an
  outcome.
\<close>

datatype ('fm, 'g, 'rec) rd =
    RdError
  | RdEof
  | RdData "('fm, 'g, 'rec) Op" "byte list"

text \<open>
  \<open>read(fd, buffer, count)\<close>: the return value and the buffer afterwards. At most
  \<open>count\<close> bytes are taken; both callers ask for at least \<open>sizeof(Op)\<close>.
\<close>

definition sys_read ::
  "('fm, 'g, 'p) platform \<Rightarrow> nat \<Rightarrow> ('fm, 'g, 'rec) rd \<Rightarrow> ('fm, 'g, 'rec) buffer
     \<Rightarrow> int \<times> ('fm, 'g, 'rec) buffer" where
  "sys_read pl count r buf =
     (case r of
        RdError \<Rightarrow> (- 1, buf)
      | RdEof \<Rightarrow> (0, buf)
      | RdData f bs \<Rightarrow>
          (let bs' = take (count - sizeof_Op pl) bs
           in (int (sizeof_Op pl + length bs'),
               buf\<lparr>frame := f, trailing := store bs' (trailing buf)\<rparr>)))"

subsection \<open>The glyph data provider\<close>

text \<open>
  Modelled from the spec: \<open>SkRemoteGlyphCacheRenderer\<close> and \<open>SkScalerContext\<close> are
  declared outside src/. The spec gives the capability: a descriptor and a font id
  resolve to a scaling context, which produces font metrics, fills in the metrics of a
  glyph, renders a glyph's image into the memory the glyph points to (the bytes it
  writes there) and produces a glyph's outline; all without other side effects.
\<close>

record ('fm, 'g, 'p) SkScalerContext =
  getFontMetrics :: 'fm
  getMetrics :: "'g SkGlyph_scheme \<Rightarrow> 'g SkGlyph_scheme"
  getImage :: "'g SkGlyph_scheme \<Rightarrow> byte list"
  getPath :: "16 word \<Rightarrow> 'p"

type_synonym ('fm, 'g, 'p, 'rec) cache =
  "'rec SkScalerContextRecDescriptor \<Rightarrow> 32 word \<Rightarrow> ('fm, 'g, 'p) SkScalerContext"

text \<open>
  Modelled from the spec: the macro \<open>SkASSERT\<close> is defined outside src/. An assertion is
  fatal when its condition is false, in a build that keeps assertions; the value says
  whether the process aborts.
\<close>

definition SkASSERT :: "bool \<Rightarrow> bool \<Rightarrow> bool" where
  "SkASSERT debug cond = (debug \<and> \<not> cond)"

text \<open>A string literal used as a condition is a non-null pointer, hence true.\<close>

definition literal_cond :: "string \<Rightarrow> bool" where
  "literal_cond s = True"

subsection \<open>The server: the dispatch loop of renderer\<close>

datatype 'b step = Abort | Continue nat 'b

text \<open>
  The body of the loop after a successful read (lines 241 to 270): the switch on
  \<open>op->op\<close>, giving \<open>writeSize\<close> and the buffer to send, or the abort of a failed
  assertion.
\<close>

definition dispatch ::
  "('fm, 'g, 'p) platform \<Rightarrow> ('fm, 'g, 'p, 'rec) cache \<Rightarrow> ('fm, 'g, 'rec) buffer
     \<Rightarrow> ('fm, 'g, 'rec) buffer step" where
  "dispatch pl rc buf =
     (let f = frame buf;
          writeSize = sizeof_Op pl;
          sc = rc (descriptor f) (typeface_id f)
      in if op f = 0 then
           Continue writeSize
             (buf\<lparr>frame := f\<lparr>payload := FontMetricsU (getFontMetrics sc)\<rparr>\<rparr>)
         else if op f = 1 then
           Continue writeSize
             (buf\<lparr>frame := f\<lparr>payload := GlyphU (getMetrics sc (glyph pl (payload f)))\<rparr>\<rparr>)
         else if op f = 2 then
           (let g = (glyph pl (payload f))\<lparr>fImage := base buf + sizeof_Op pl\<rparr>
            in Continue (writeSize + rowBytes g * fHeight g)
                 (buf\<lparr>frame := f\<lparr>payload := GlyphU g\<rparr>,
                      trailing := store (getImage sc g) (trailing buf)\<rparr>))
         else if op f = 3 then
           (let path = getPath sc (glyphId pl (payload f));
                bytes = writeToMemory pl path;
                u = set_pathSize pl (length bytes) (payload f)
            in Continue (writeSize + pathSize pl u)
                 (buf\<lparr>frame := f\<lparr>payload := u\<rparr>,
                      trailing := store bytes (trailing buf)\<rparr>))
         else if SkASSERT (SK_DEBUG pl) (literal_cond ''Bad op'') then Abort
         else Continue writeSize buf)"

text \<open>
  The bytes a \<open>write(fd, buffer, count)\<close> takes from a buffer: the frame and the
  \<open>count - sizeof(Op)\<close> bytes behind it.
\<close>

definition written ::
  "('fm, 'g, 'p) platform \<Rightarrow> ('fm, 'g, 'rec) buffer \<Rightarrow> nat
     \<Rightarrow> ('fm, 'g, 'rec) Op \<times> byte list" where
  "written pl buf count = (frame buf, load (count - sizeof_Op pl) (trailing buf))"

text \<open>
  One pass of \<open>while (true)\<close> (lines 239 to 271), given what the read returns: the calls
  issued, and whether the loop is left by \<open>break\<close>, the process aborts, or the pass
  ends with the write of \<open>writeSize\<close> bytes. The value of that \<open>write\<close> is discarded
  by the code, so it is no input of the model.
\<close>

datatype ('fm, 'g, 'rec) pass = Break | Crash | Next nat "('fm, 'g, 'rec) buffer"

definition loop_pass ::
  "('fm, 'g, 'p) platform \<Rightarrow> ('fm, 'g, 'p, 'rec) cache \<Rightarrow> int \<Rightarrow> int
     \<Rightarrow> ('fm, 'g, 'rec) rd \<Rightarrow> ('fm, 'g, 'rec) buffer
     \<Rightarrow> syscall list \<times> ('fm, 'g, 'rec) pass" where
  "loop_pass pl rc readFd writeFd r buf =
     (let (size, buf1) = sys_read pl (sizeof_Op pl) r buf
      in if size \<le> 0 then ([SysRead readFd (sizeof_Op pl)], Break)
         else (case dispatch pl rc buf1 of
                 Abort \<Rightarrow> ([SysRead readFd (sizeof_Op pl)], Crash)
               | Continue writeSize buf2 \<Rightarrow>
                   ([SysRead readFd (sizeof_Op pl), SysWrite writeFd writeSize],
                    Next writeSize buf2)))"

text \<open>
  The loop, over the outcomes of its successive reads. When the outcomes run out the
  next read never returns, and neither does the loop: \<open>None\<close>.
\<close>

datatype ending = Broke | Crashed

fun op_loop ::
  "('fm, 'g, 'p) platform \<Rightarrow> ('fm, 'g, 'p, 'rec) cache \<Rightarrow> int \<Rightarrow> int
     \<Rightarrow> ('fm, 'g, 'rec) rd list \<Rightarrow> ('fm, 'g, 'rec) buffer
     \<Rightarrow> (syscall list \<times> ending) option" where
  "op_loop pl rc readFd writeFd [] buf = None"
| "op_loop pl rc readFd writeFd (r # script) buf =
     (case loop_pass pl rc readFd writeFd r buf of
        (tr, Break) \<Rightarrow> Some (tr, Broke)
      | (tr, Crash) \<Rightarrow> Some (tr, Crashed)
      | (tr, Next writeSize buf') \<Rightarrow>
          map_option (\<lambda>(tr', e). (tr @ tr', e))
            (op_loop pl rc readFd writeFd script buf'))"

text \<open>
  The loop that sends the picture (lines 219 to 231), over the values of its successive
  \<open>write\<close> calls: \<open>False\<close> when it ends in \<open>return 1\<close>, \<open>True\<close> when the picture is sent.
\<close>

fun send_picture ::
  "int \<Rightarrow> int list \<Rightarrow> nat \<Rightarrow> nat \<Rightarrow> (syscall list \<times> bool) option" where
  "send_picture writeFd [] picSize writeSoFar =
     (if writeSoFar < picSize then None else Some ([], True))"
| "send_picture writeFd (writeSize # ws) picSize writeSoFar =
     (if writeSoFar < picSize then
        (if writeSize \<le> 0 then Some ([SysWrite writeFd (picSize - writeSoFar)], False)
         else map_option (\<lambda>(tr, sent). (SysWrite writeFd (picSize - writeSoFar) # tr, sent))
                (send_picture writeFd ws picSize (writeSoFar + nat writeSize)))
      else Some ([], True))"

text \<open>
  How a function or a process ends: it returns a value, it aborts, or it exits with a
  status.
\<close>

datatype 'a status = Returned 'a | Aborted | Exited int

text \<open>
  \<open>renderer\<close> from line 217 on (\<open>toGpu\<close> is the constant true): the length prefix, the
  picture, the dispatch loop, then both descriptors are closed and 0 is returned.
  \<open>picSize\<close> is the size of the serialized picture, \<open>ws\<close> the values of the picture
  writes, \<open>script\<close> the outcomes of the reads of the loop, \<open>buf\<close> the fresh
  \<open>glyphBuffer\<close>.
\<close>

definition renderer ::
  "('fm, 'g, 'p) platform \<Rightarrow> ('fm, 'g, 'p, 'rec) cache \<Rightarrow> int \<Rightarrow> int \<Rightarrow> nat \<Rightarrow> int list
     \<Rightarrow> ('fm, 'g, 'rec) rd list \<Rightarrow> ('fm, 'g, 'rec) buffer
     \<Rightarrow> (syscall list \<times> int status) option" where
  "renderer pl rc readFd writeFd picSize ws script buf =
     (case send_picture writeFd ws picSize 0 of
        None \<Rightarrow> None
      | Some (tr1, False) \<Rightarrow> Some (SysWrite writeFd (sizeof_size_t pl) # tr1, Returned 1)
      | Some (tr1, True) \<Rightarrow>
          (case op_loop pl rc readFd writeFd script buf of
             None \<Rightarrow> None
           | Some (tr2, Crashed) \<Rightarrow>
               Some (SysWrite writeFd (sizeof_size_t pl) # tr1 @ tr2, Aborted)
           | Some (tr2, Broke) \<Rightarrow>
               Some (SysWrite writeFd (sizeof_size_t pl) # tr1 @ tr2
                       @ [SysClose readFd, SysClose writeFd],
                     Returned 0)))"

subsection \<open>The two roles and main\<close>

datatype direction = kRead | kWrite

text \<open>An \<open>int[2]\<close> filled by \<open>pipe\<close>, indexed by a direction.\<close>

fun at :: "int \<times> int \<Rightarrow> direction \<Rightarrow> int" where
  "at p kRead = fst p"
| "at p kWrite = snd p"

text \<open>\<open>start_render\<close> closes the two ends it does not use, runs \<open>renderer\<close> and drops its value.\<close>

definition start_render ::
  "('fm, 'g, 'p) platform \<Rightarrow> ('fm, 'g, 'p, 'rec) cache \<Rightarrow> int \<times> int \<Rightarrow> int \<times> int \<Rightarrow> nat
     \<Rightarrow> int list \<Rightarrow> ('fm, 'g, 'rec) rd list \<Rightarrow> ('fm, 'g, 'rec) buffer
     \<Rightarrow> (syscall list \<times> unit status) option" where
  "start_render pl rc render_to_gpu gpu_to_render picSize ws script buf =
     (case renderer pl rc (at gpu_to_render kRead) (at render_to_gpu kWrite)
             picSize ws script buf of
        None \<Rightarrow> None
      | Some (tr, st) \<Rightarrow>
          Some (SysClose (at render_to_gpu kRead) # SysClose (at gpu_to_render kWrite) # tr,
                case st of Returned v \<Rightarrow> Returned () | Aborted \<Rightarrow> Aborted
                         | Exited n \<Rightarrow> Exited n))"

text \<open>
  \<open>main\<close> (\<open>useProcess\<close> is the constant true). \<open>r1\<close> and \<open>r2\<close> are the values of the
  two \<open>pipe\<close> calls, \<open>child\<close> the value of \<open>fork\<close>. In the child the rasterizer role
  runs; its replay of the picture is outside src/, so how \<open>start_gpu\<close> ends is
  the parameter \<open>gpu_run\<close>. Otherwise the renderer role runs, the child is awaited and
  0 is returned. The result is how the process ends.
\<close>

definition main ::
  "('fm, 'g, 'p) platform \<Rightarrow> ('fm, 'g, 'p, 'rec) cache \<Rightarrow> int \<Rightarrow> int \<times> int \<Rightarrow> int
     \<Rightarrow> int \<times> int \<Rightarrow> int \<Rightarrow> unit status option \<Rightarrow> nat \<Rightarrow> int list
     \<Rightarrow> ('fm, 'g, 'rec) rd list \<Rightarrow> ('fm, 'g, 'rec) buffer \<Rightarrow> int status option" where
  "main pl rc r1 render_to_gpu r2 gpu_to_render child gpu_run picSize ws script buf =
     (if r1 < 0 then Some (Returned 1)
      else if r2 < 0 then Some (Returned 1)
      else if child = 0 then
        (case gpu_run of
           None \<Rightarrow> None
         | Some (Returned v) \<Rightarrow> Some (Returned 0)
         | Some Aborted \<Rightarrow> Some Aborted
         | Some (Exited n) \<Rightarrow> Some (Exited n))
      else
        (case start_render pl rc render_to_gpu gpu_to_render picSize ws script buf of
           None \<Rightarrow> None
         | Some (tr, Returned v) \<Rightarrow> Some (Returned 0)
         | Some (tr, Aborted) \<Rightarrow> Some Aborted
         | Some (tr, Exited n) \<Rightarrow> Some (Exited n)))"

subsection \<open>The client: class RemoteScalerContextFIFO\<close>

record ('fm, 'g, 'rec) client =
  fReadFd :: int
  fWriteFd :: int
  fBuffer :: "('fm, 'g, 'rec) buffer"

text \<open>
  \<open>new (fBuffer) Op(rec)\<close> constructs the frame over the bytes the buffer holds: the
  constructor initialises \<open>descriptor\<close> only, so the union keeps what the last exchange
  left there; \<open>createOp\<close> then sets \<open>op\<close> and \<open>typeface_id\<close>.
\<close>

definition createOp ::
  "('fm, 'g, 'rec) client \<Rightarrow> 32 word \<Rightarrow> SkTypefaceProxy \<Rightarrow> 'rec \<Rightarrow> ('fm, 'g, 'rec) client" where
  "createOp c opID tf rec =
     (let f = (frame (fBuffer c))\<lparr>descriptor := SkScalerContextRecDescriptor rec\<rparr>;
          f = f\<lparr>op := opID\<rparr>;
          f = f\<lparr>typeface_id := fontID tf\<rparr>
      in c\<lparr>fBuffer := (fBuffer c)\<lparr>frame := f\<rparr>\<rparr>)"

text \<open>
  The other end of the client's pipes: from the bytes the client wrote to the outcome of
  its next read, or \<open>None\<close> when that read never returns.
\<close>

type_synonym ('fm, 'g, 'rec) peer =
  "('fm, 'g, 'rec) Op \<times> byte list \<Rightarrow> ('fm, 'g, 'rec) rd option"

text \<open>
  The four operations. Each gives its result, the client afterwards and the calls it
  issued. The values of \<open>write\<close> and \<open>read\<close> are discarded by the code; the destructor
  \<open>op->~Op()\<close> changes nothing.
\<close>

definition generateFontMetrics ::
  "('fm, 'g, 'p) platform \<Rightarrow> ('fm, 'g, 'rec) peer \<Rightarrow> ('fm, 'g, 'rec) client
     \<Rightarrow> SkTypefaceProxy \<Rightarrow> 'rec
     \<Rightarrow> ('fm \<times> ('fm, 'g, 'rec) client \<times> syscall list) option" where
  "generateFontMetrics pl peer c tf rec =
     (let c1 = createOp c 0 tf rec
      in case peer (written pl (fBuffer c1) (sizeof_Op pl)) of
           None \<Rightarrow> None
         | Some r \<Rightarrow>
             (let (n, buf) = sys_read pl sizeof_fBuffer r (fBuffer c1);
                  metrics = fontMetrics pl (payload (frame buf))
              in Some (metrics, c1\<lparr>fBuffer := buf\<rparr>,
                       [SysWrite (fWriteFd c) (sizeof_Op pl),
                        SysRead (fReadFd c) sizeof_fBuffer])))"

definition generateMetrics ::
  "('fm, 'g, 'p) platform \<Rightarrow> ('fm, 'g, 'rec) peer \<Rightarrow> ('fm, 'g, 'rec) client
     \<Rightarrow> SkTypefaceProxy \<Rightarrow> 'rec \<Rightarrow> 'g SkGlyph_scheme
     \<Rightarrow> ('g SkGlyph_scheme \<times> ('fm, 'g, 'rec) client \<times> syscall list) option" where
  "generateMetrics pl peer c tf rec g =
     (let c1 = createOp c 1 tf rec;
          buf1 = (fBuffer c1)\<lparr>frame := (frame (fBuffer c1))\<lparr>payload := GlyphU g\<rparr>\<rparr>
      in case peer (written pl buf1 (sizeof_Op pl)) of
           None \<Rightarrow> None
         | Some r \<Rightarrow>
             (let (n, buf) = sys_read pl sizeof_fBuffer r buf1;
                  g' = glyph pl (payload (frame buf))
              in Some (g', c1\<lparr>fBuffer := buf\<rparr>,
                       [SysWrite (fWriteFd c) (sizeof_Op pl),
                        SysRead (fReadFd c) sizeof_fBuffer])))"

text \<open>
  \<open>generateImage\<close>: the result is the bytes copied to the caller's \<open>glyph.fImage\<close>.
\<close>

definition generateImage ::
  "('fm, 'g, 'p) platform \<Rightarrow> ('fm, 'g, 'rec) peer \<Rightarrow> ('fm, 'g, 'rec) client
     \<Rightarrow> SkTypefaceProxy \<Rightarrow> 'rec \<Rightarrow> 'g SkGlyph_scheme
     \<Rightarrow> (byte list \<times> ('fm, 'g, 'rec) client \<times> syscall list) option" where
  "generateImage pl peer c tf rec g =
     (let c1 = createOp c 2 tf rec;
          buf1 = (fBuffer c1)\<lparr>frame := (frame (fBuffer c1))\<lparr>payload := GlyphU g\<rparr>\<rparr>
      in case peer (written pl buf1 (sizeof_Op pl)) of
           None \<Rightarrow> None
         | Some r \<Rightarrow>
             (let (n, buf) = sys_read pl sizeof_fBuffer r buf1;
                  pixels = load (rowBytes g * fHeight g) (trailing buf)
              in Some (pixels, c1\<lparr>fBuffer := buf\<rparr>,
                       [SysWrite (fWriteFd c) (sizeof_Op pl),
                        SysRead (fReadFd c) sizeof_fBuffer])))"


subsection \<open>One exchange against the dispatch loop\<close>

text \<open>
  The client's peer when its pipes lead to the dispatch loop and both pipes are empty
  when the exchange begins: the frame the client wrote is what the loop's read returns,
  one pass of the loop runs on the server's buffer \<open>sbuf\<close>, and the client's read gets
  the frame the pass wrote with the first \<open>k\<close> of its trailing bytes. A server that
  leaves the loop or aborts closes the pipe. This is one exchange only: what the read
  did not take stays in the pipe (\<open>left_in_pipe\<close>), and an operation that starts on a
  pipe that is not empty has the peer \<open>stale_peer\<close>, not this one.
\<close>

definition dispatch_peer ::
  "('fm, 'g, 'p) platform \<Rightarrow> ('fm, 'g, 'p, 'rec) cache \<Rightarrow> int \<Rightarrow> int
     \<Rightarrow> ('fm, 'g, 'rec) buffer \<Rightarrow> nat \<Rightarrow> ('fm, 'g, 'rec) peer" where
  "dispatch_peer pl rc readFd writeFd sbuf k request =
     (case loop_pass pl rc readFd writeFd (RdData (fst request) (snd request)) sbuf of
        (tr, Next writeSize buf) \<Rightarrow>
          (let response = written pl buf writeSize
           in Some (RdData (fst response) (take k (snd response))))
      | (tr, Break) \<Rightarrow> Some RdEof
      | (tr, Crash) \<Rightarrow> Some RdEof)"

subsection \<open>What a short read leaves in the pipe\<close>

text \<open>
  The bytes the client's inbound pipe holds after the exchange of \<open>dispatch_peer\<close>: the
  trailing bytes of the response beyond the \<open>k\<close> that the client's read took. No call
  of the client takes them out; they are what its next \<open>read\<close> returns first.
\<close>

definition left_in_pipe ::
  "('fm, 'g, 'p) platform \<Rightarrow> ('fm, 'g, 'p, 'rec) cache \<Rightarrow> int \<Rightarrow> int
     \<Rightarrow> ('fm, 'g, 'rec) buffer \<Rightarrow> nat \<Rightarrow> ('fm, 'g, 'rec) Op \<times> byte list \<Rightarrow> byte list" where
  "left_in_pipe pl rc readFd writeFd sbuf k request =
     (case loop_pass pl rc readFd writeFd (RdData (fst request) (snd request)) sbuf of
        (tr, Next writeSize buf) \<Rightarrow> drop k (snd (written pl buf writeSize))
      | (tr, Break) \<Rightarrow> []
      | (tr, Crash) \<Rightarrow> [])"

text \<open>
  The client's peer when its inbound pipe still holds the bytes \<open>pending\<close> (not empty)
  as the operation starts: \<open>read(fReadFd, fBuffer, sizeof(fBuffer))\<close> does not wait
  for the server, it returns at once with what the pipe holds. These bytes are stored
  from the start of the buffer, so the first \<open>sizeof(Op)\<close> of them lie over the frame
  the client has just written. \<open>overlay bs f\<close> is the \<open>Op\<close> that memory holds once
  the bytes \<open>bs\<close> are stored over the start of the \<open>Op\<close> \<open>f\<close>; it depends on the
  layout of \<open>Op\<close>, which the build fixes. (The value of the read is discarded by the
  client.)
\<close>

definition stale_peer ::
  "('fm, 'g, 'p) platform \<Rightarrow> (byte list \<Rightarrow> ('fm, 'g, 'rec) Op \<Rightarrow> ('fm, 'g, 'rec) Op)
     \<Rightarrow> byte list \<Rightarrow> ('fm, 'g, 'rec) peer" where
  "stale_peer pl overlay pending request =
     Some (RdData (overlay (take (sizeof_Op pl) pending) (fst request))
                  (drop (sizeof_Op pl) pending))"

subsection \<open>A concrete platform, provider and client\<close>

text \<open>
  Sample values on which the theorems below are evaluated. Font metrics are the three
  fields the spec's first scenario names; a glyph carries its identifier; a path is its
  own encoding; the rendering parameters are a number.
\<close>

record sample_metrics =
  ascent :: int
  descent :: int
  leading :: int

record sample_glyph = SkGlyph +
  fID :: "16 word"

type_synonym sample_platform = "(sample_metrics, unit sample_glyph_ext, byte list) platform"
type_synonym sample_Op = "(sample_metrics, unit sample_glyph_ext, nat) Op"
type_synonym sample_buffer = "(sample_metrics, unit sample_glyph_ext, nat) buffer"

definition pl0 :: sample_platform where
  "pl0 = \<lparr>sizeof_rest = 184, sizeof_size_t = 8, SK_DEBUG = True,
          pun_fontMetrics = (\<lambda>u. \<lparr>ascent = 0, descent = 0, leading = 0\<rparr>),
          pun_glyph = (\<lambda>u. \<lparr>fImage = 0, fHeight = 0, rowBytes = 0, fID = 0\<rparr>),
          pun_glyphId = (\<lambda>u. 0),
          pun_pathSize = (\<lambda>u. 0),
          writeToMemory = (\<lambda>p. p),
          readFromMemory = (\<lambda>m n. load n m)\<rparr>"

text \<open>
  A provider: every font has ascent 10, descent -2, leading 1; every glyph measures 8
  bytes a row and 12 rows unless the request says otherwise; a pixel is \<open>0xFF\<close>; the
  outline of glyph \<open>i\<close> is the two bytes \<open>i\<close>, 7.
\<close>

definition sc0 :: "(sample_metrics, unit sample_glyph_ext, byte list) SkScalerContext" where
  "sc0 = \<lparr>getFontMetrics = \<lparr>ascent = 10, descent = - 2, leading = 1\<rparr>,
          getMetrics = (\<lambda>g. g\<lparr>fHeight := 12, rowBytes := 8\<rparr>),
          getImage = (\<lambda>g. replicate (rowBytes g * fHeight g) 255),
          getPath = (\<lambda>i. [ucast i, 7])\<rparr>"

definition rc0 :: "(sample_metrics, unit sample_glyph_ext, byte list, nat) cache" where
  "rc0 d t = sc0"

definition frame0 :: sample_Op where
  "frame0 = \<lparr>op = 0, typeface_id = 0,
             payload = FontMetricsU \<lparr>ascent = 0, descent = 0, leading = 0\<rparr>,
             descriptor = SkScalerContextRecDescriptor 0\<rparr>"

text \<open>The server's buffer at address 4096 and the client's at 8192, holding old bytes.\<close>

definition sbuf0 :: sample_buffer where
  "sbuf0 = \<lparr>base = 4096, frame = frame0, trailing = (\<lambda>i. 0)\<rparr>"

definition client0 :: "(sample_metrics, unit sample_glyph_ext, nat) client" where
  "client0 = \<lparr>fReadFd = 3, fWriteFd = 4,
              fBuffer = \<lparr>base = 8192, frame = frame0, trailing = (\<lambda>i. 170)\<rparr>\<rparr>"

definition tf0 :: SkTypefaceProxy where
  "tf0 = \<lparr>fontID = 42\<rparr>"

text \<open>
  Glyph 65 with 8 bytes a row and 12 rows; a small glyph; a glyph of 100000 bytes, more
  than a pipe of 65536 bytes holds; a glyph of 4 MiB.
\<close>

definition glyphA :: sample_glyph where
  "glyphA = \<lparr>fImage = 100000, fHeight = 12, rowBytes = 8, fID = 65\<rparr>"

definition glyph_small :: sample_glyph where
  "glyph_small = \<lparr>fImage = 100000, fHeight = 2, rowBytes = 2, fID = 66\<rparr>"

definition glyph_big :: sample_glyph where
  "glyph_big = \<lparr>fImage = 100000, fHeight = 250, rowBytes = 400, fID = 68\<rparr>"

definition glyph_huge :: sample_glyph where
  "glyph_huge = \<lparr>fImage = 100000, fHeight = 1024, rowBytes = 4096, fID = 67\<rparr>"

text \<open>
  A sample layout of \<open>Op\<close>: the opcode at byte 0, the font id at byte 4, the three
  metrics at bytes 8, 12 and 16, the descriptor at byte 184, each read from one byte; a
  field the bytes do not reach keeps its value.
\<close>

definition overlay0 :: "byte list \<Rightarrow> sample_Op \<Rightarrow> sample_Op" where
  "overlay0 bs f =
     \<lparr>op = (if 0 < length bs then ucast (bs ! 0) else op f),
      typeface_id = (if 4 < length bs then ucast (bs ! 4) else typeface_id f),
      payload = (if 16 < length bs
                 then FontMetricsU \<lparr>ascent = uint (bs ! 8), descent = uint (bs ! 12),
                                    leading = uint (bs ! 16)\<rparr>
                 else payload f),
      descriptor = (if 184 < length bs then SkScalerContextRecDescriptor (unat (bs ! 184))
                    else descriptor f)\<rparr>"

text \<open>Request frames as a peer could send them: an unknown opcode, and opcode 2.\<close>

definition bad_op :: sample_Op where
  "bad_op = frame0\<lparr>op := 4, typeface_id := 42\<rparr>"

definition huge_request :: sample_Op where
  "huge_request = frame0\<lparr>op := 2, typeface_id := 42, payload := GlyphU glyph_huge\<rparr>"

section \<open>Properties\<close>

subsection \<open>Memory and the loop body\<close>

lemma store_Nil: "store [] m = m"
  by (simp add: store_def)

lemma length_load: "length (load n m) = n"
  by (simp add: load_def)

lemma load_store: "length bs = n \<Longrightarrow> load n (store bs m) = bs"
  by (auto simp: load_def store_def intro: nth_equalityI)

lemma nth_load: "i < n \<Longrightarrow> load n m ! i = m i"
  by (simp add: load_def)

lemma store_apply: "store bs m i = (if i < length bs then bs ! i else m i)"
  by (simp add: store_def)

lemma sizeof_Op_pos: "\<not> int (sizeof_Op pl + n) \<le> 0"
  by (simp add: sizeof_Op_def)

lemma sys_read_frame:
  "sys_read pl (sizeof_Op pl) (RdData f bs) buf = (int (sizeof_Op pl), buf\<lparr>frame := f\<rparr>)"
  by (simp add: sys_read_def store_Nil)

lemma loop_pass_data:
  "loop_pass pl rc readFd writeFd (RdData f bs) buf =
     (case dispatch pl rc (buf\<lparr>frame := f\<rparr>) of
        Abort \<Rightarrow> ([SysRead readFd (sizeof_Op pl)], Crash)
      | Continue writeSize buf2 \<Rightarrow>
          ([SysRead readFd (sizeof_Op pl), SysWrite writeFd writeSize], Next writeSize buf2))"
  using sizeof_Op_pos [of pl 0] by (simp add: loop_pass_def sys_read_frame)

lemma dispatch_no_abort: "dispatch pl rc buf \<noteq> Abort"
  by (simp add: dispatch_def Let_def SkASSERT_def literal_cond_def)

lemma dispatch_op0:
  "op (frame buf) = 0 \<Longrightarrow>
   dispatch pl rc buf =
     Continue (sizeof_Op pl)
       (buf\<lparr>frame := (frame buf)\<lparr>payload :=
          FontMetricsU (getFontMetrics (rc (descriptor (frame buf)) (typeface_id (frame buf))))\<rparr>\<rparr>)"
  by (simp add: dispatch_def Let_def)

lemma dispatch_op1:
  "op (frame buf) = 1 \<Longrightarrow>
   dispatch pl rc buf =
     Continue (sizeof_Op pl)
       (buf\<lparr>frame := (frame buf)\<lparr>payload :=
          GlyphU (getMetrics (rc (descriptor (frame buf)) (typeface_id (frame buf)))
                    (glyph pl (payload (frame buf))))\<rparr>\<rparr>)"
  by (simp add: dispatch_def Let_def)

lemma dispatch_op2:
  "op (frame buf) = 2 \<Longrightarrow>
   dispatch pl rc buf =
     (let f = frame buf;
          sc = rc (descriptor f) (typeface_id f);
          g = (glyph pl (payload f))\<lparr>fImage := base buf + sizeof_Op pl\<rparr>
      in Continue (sizeof_Op pl + rowBytes g * fHeight g)
           (buf\<lparr>frame := f\<lparr>payload := GlyphU g\<rparr>,
                trailing := store (getImage sc g) (trailing buf)\<rparr>))"
  by (simp add: dispatch_def Let_def)

lemma dispatch_unknown:
  "op (frame buf) \<noteq> 0 \<Longrightarrow> op (frame buf) \<noteq> 1 \<Longrightarrow> op (frame buf) \<noteq> 2 \<Longrightarrow>
   op (frame buf) \<noteq> 3 \<Longrightarrow> dispatch pl rc buf = Continue (sizeof_Op pl) buf"
  by (simp add: dispatch_def Let_def SkASSERT_def literal_cond_def)

lemma dispatch_size:
  "dispatch pl rc buf = Continue n buf' \<Longrightarrow> n \<noteq> sizeof_Op pl \<Longrightarrow>
   op (frame buf) = 2 \<or> op (frame buf) = 3"
  by (auto simp: dispatch_def Let_def split: if_splits)

lemma loop_pass_Next:
  "\<exists>n buf'. loop_pass pl rc readFd writeFd (RdData f bs) buf
     = ([SysRead readFd (sizeof_Op pl), SysWrite writeFd n], Next n buf')"
  using dispatch_no_abort [of pl rc "buf\<lparr>frame := f\<rparr>"]
  by (cases "dispatch pl rc (buf\<lparr>frame := f\<rparr>)") (simp_all add: loop_pass_data)

lemma loop_pass_stop:
  "r = RdEof \<or> r = RdError \<Longrightarrow>
   loop_pass pl rc readFd writeFd r buf = ([SysRead readFd (sizeof_Op pl)], Break)"
  by (auto simp: loop_pass_def sys_read_def)

text \<open>
  After any number of served requests, a read that returns 0 or -1 ends the loop by
  \<open>break\<close>: every earlier pass issued one read and one write, nothing was closed, and
  the outcomes after it are never looked at.
\<close>

lemma op_loop_stop:
  "r = RdEof \<or> r = RdError \<Longrightarrow>
   \<exists>tr. op_loop pl rc readFd writeFd (map (\<lambda>(f, bs). RdData f bs) reqs @ r # rest) buf
          = Some (tr @ [SysRead readFd (sizeof_Op pl)], Broke)
        \<and> length tr = 2 * length reqs
        \<and> (\<forall>fd. SysClose fd \<notin> set tr)"
proof (induction reqs arbitrary: buf)
  case Nil
  then show ?case by (simp add: loop_pass_stop)
next
  case (Cons q reqs)
  obtain f bs where q: "q = (f, bs)" by (cases q)
  obtain n buf' where p: "loop_pass pl rc readFd writeFd (RdData f bs) buf
     = ([SysRead readFd (sizeof_Op pl), SysWrite writeFd n], Next n buf')"
    using loop_pass_Next by blast
  from Cons.IH [OF Cons.prems, of buf'] obtain tr where
    "op_loop pl rc readFd writeFd (map (\<lambda>(f, bs). RdData f bs) reqs @ r # rest) buf'
          = Some (tr @ [SysRead readFd (sizeof_Op pl)], Broke)"
    "length tr = 2 * length reqs" "\<forall>fd. SysClose fd \<notin> set tr" by blast
  then show ?case
    by (intro exI [of _ "[SysRead readFd (sizeof_Op pl), SysWrite writeFd n] @ tr"])
       (simp add: q p)
qed

subsection \<open>Runs on the sample platform\<close>

lemma sizeof_Op_pl0: "sizeof_Op pl0 = 192"
  by (simp add: sizeof_Op_def pl0_def)

lemma font_metrics_exchange:
  "\<exists>c'. generateFontMetrics pl0 (dispatch_peer pl0 rc0 5 6 sbuf0 0) client0 tf0 7
     = Some (\<lparr>ascent = 10, descent = - 2, leading = 1\<rparr>, c',
             [SysWrite 4 192, SysRead 3 4194304])"
  apply (simp add: generateFontMetrics_def dispatch_peer_def loop_pass_data dispatch_op0
      createOp_def written_def Let_def sys_read_def)
  apply (simp add: rc0_def sc0_def client0_def sizeof_Op_pl0 sizeof_fBuffer_def kPageSize_def)
  done

lemma metrics_exchange:
  "\<exists>c'. generateMetrics pl0 (dispatch_peer pl0 rc0 5 6 sbuf0 0) client0 tf0 7 glyph_small
     = Some (glyph_small\<lparr>fHeight := 12, rowBytes := 8\<rparr>, c',
             [SysWrite 4 192, SysRead 3 4194304])"
  apply (simp add: generateMetrics_def dispatch_peer_def loop_pass_data dispatch_op1
      createOp_def written_def Let_def sys_read_def)
  apply (simp add: rc0_def sc0_def client0_def sizeof_Op_pl0 sizeof_fBuffer_def kPageSize_def)
  done

lemma glyphA_exchange:
  "\<exists>c'. generateImage pl0 (dispatch_peer pl0 rc0 5 6 sbuf0 96) client0 tf0 7 glyphA
     = Some (replicate 96 255, c', [SysWrite 4 192, SysRead 3 4194304])"
  apply (simp add: generateImage_def dispatch_peer_def loop_pass_data dispatch_op2
      createOp_def written_def Let_def sys_read_def)
  apply (simp add: rc0_def sc0_def glyphA_def client0_def sbuf0_def pl0_def
      sizeof_Op_def tf0_def frame0_def sizeof_fBuffer_def kPageSize_def load_store)
  done


lemma huge_request_pass:
  "\<exists>buf'. loop_pass pl0 rc0 5 6 (RdData huge_request []) sbuf0
            = ([SysRead 5 192, SysWrite 6 (192 + 4194304)], Next (192 + 4194304) buf')"
  by (simp add: loop_pass_data dispatch_op2 huge_request_def frame0_def glyph_huge_def
        Let_def sizeof_Op_pl0)

lemma send_picture_two:
  "send_picture 4 [4, 6] 10 0 = Some ([SysWrite 4 10, SysWrite 4 6], True)"
  by simp

lemma renderer_run:
  "r = RdEof \<or> r = RdError \<Longrightarrow>
   renderer pl0 rc0 5 4 10 [4, 6] [RdData bad_op [], r, RdData bad_op []] sbuf0
     = Some ([SysWrite 4 8, SysWrite 4 10, SysWrite 4 6, SysRead 5 192, SysWrite 4 192,
              SysRead 5 192, SysClose 5, SysClose 4], Returned 0)"
  by (auto simp: renderer_def loop_pass_data loop_pass_stop dispatch_unknown bad_op_def
      frame0_def sizeof_Op_pl0) (simp_all add: pl0_def)

subsection \<open>Font metrics after a short read\<close>

text \<open>
  C1. The claim is that the metrics \<open>generateFontMetrics\<close> hands to its caller are
  exactly what the provider's \<open>getFontMetrics\<close> produces. The code reads once and
  never checks what it read, so the operation returns whatever bytes its read finds
  first in the pipe. After the short read of C6 (a glyph of 100000 pixels \<open>0xFF\<close>, of
  which the read took 65344) the pipe still holds 34656 pixels;
  \<open>generateFontMetrics\<close> then writes its request, reads these pixels over its frame
  and returns them as metrics: 255, 255, 255 in the sample layout, where the provider
  has 10, -2, 1.
\<close>

theorem leftover_bytes_read_as_metrics:
  "\<exists>pixels c1 c2.
      generateImage pl0 (dispatch_peer pl0 rc0 5 6 sbuf0 65344) client0 tf0 7 glyph_big
        = Some (pixels, c1, [SysWrite 4 192, SysRead 3 4194304])
    \<and> left_in_pipe pl0 rc0 5 6 sbuf0 65344
         ((frame (fBuffer (createOp client0 2 tf0 7)))\<lparr>payload := GlyphU glyph_big\<rparr>, [])
        = replicate 34656 255
    \<and> generateFontMetrics pl0 (stale_peer pl0 overlay0 (replicate 34656 255)) c1 tf0 7
        = Some (\<lparr>ascent = 255, descent = 255, leading = 255\<rparr>, c2,
                [SysWrite 4 192, SysRead 3 4194304])
    \<and> getFontMetrics (rc0 (SkScalerContextRecDescriptor 7) 42)
        = \<lparr>ascent = 10, descent = - 2, leading = 1\<rparr>"
  apply (simp add: generateImage_def generateFontMetrics_def dispatch_peer_def left_in_pipe_def
      stale_peer_def loop_pass_data dispatch_op2 createOp_def written_def Let_def sys_read_def)
  apply (simp add: rc0_def sc0_def glyph_big_def client0_def sbuf0_def sizeof_Op_pl0
      sizeof_fBuffer_def kPageSize_def load_store overlay0_def)
  done

subsection \<open>Glyph images: the trailing length\<close>

text \<open>
  C2. In a glyph-image exchange (opcode 2) the number of trailing bytes the server
  appends to the frame and the number of bytes the client copies to the caller's image
  both equal \<open>rowBytes \<times> height\<close> of the glyph in the frame that this exchange
  returns. First for any opcode-2 request the loop reads; then for the exchange that
  \<open>generateImage\<close> runs against the loop, where the frame the client holds afterwards
  is the frame the server wrote.
\<close>

theorem image_trailing_length:
  "(op f = 2 \<longrightarrow>
      (\<exists>n sbuf'. loop_pass pl rc readFd writeFd (RdData f bs) sbuf
           = ([SysRead readFd (sizeof_Op pl), SysWrite writeFd (sizeof_Op pl + n)],
              Next (sizeof_Op pl + n) sbuf')
         \<and> n = rowBytes (glyph pl (payload (frame sbuf')))
               * fHeight (glyph pl (payload (frame sbuf')))
         \<and> length (snd (written pl sbuf' (sizeof_Op pl + n))) = n))
   \<and> (generateImage pl (dispatch_peer pl rc readFd writeFd sbuf k) c tf rec g
         = Some (pixels, c', tr) \<longrightarrow>
        (\<exists>sbuf'. loop_pass pl rc readFd writeFd
                    (RdData ((frame (fBuffer (createOp c 2 tf rec)))\<lparr>payload := GlyphU g\<rparr>) [])
                    sbuf
           = ([SysRead readFd (sizeof_Op pl), SysWrite writeFd (sizeof_Op pl + length pixels)],
              Next (sizeof_Op pl + length pixels) sbuf')
         \<and> frame (fBuffer c') = frame sbuf'
         \<and> length pixels = rowBytes (glyph pl (payload (frame (fBuffer c'))))
                             * fHeight (glyph pl (payload (frame (fBuffer c'))))))"
  by (auto simp: loop_pass_data dispatch_op2 Let_def written_def length_load
      generateImage_def dispatch_peer_def createOp_def sys_read_def)

text \<open>
  The spec's second scenario: glyph 65 with 8 bytes a row and 12 rows. The server writes
  the frame and 96 bytes, the client copies 96 bytes, the pixels of the provider.
\<close>

theorem image_trailing_length_witness:
  "\<exists>c' sbuf'.
      generateImage pl0 (dispatch_peer pl0 rc0 5 6 sbuf0 96) client0 tf0 7 glyphA
        = Some (replicate 96 255, c', [SysWrite 4 192, SysRead 3 4194304])
    \<and> loop_pass pl0 rc0 5 6
         (RdData ((frame (fBuffer (createOp client0 2 tf0 7)))\<lparr>payload := GlyphU glyphA\<rparr>) [])
         sbuf0
        = ([SysRead 5 192, SysWrite 6 (192 + 96)], Next (192 + 96) sbuf')
    \<and> frame (fBuffer c') = frame sbuf'
    \<and> rowBytes (glyph pl0 (payload (frame (fBuffer c')))) = 8
    \<and> fHeight (glyph pl0 (payload (frame (fBuffer c')))) = 12
    \<and> length (replicate 96 (255 :: byte)) = 8 * 12"
proof -
  obtain c' where e:
    "generateImage pl0 (dispatch_peer pl0 rc0 5 6 sbuf0 96) client0 tf0 7 glyphA
     = Some (replicate 96 255, c', [SysWrite 4 192, SysRead 3 4194304])"
    using glyphA_exchange by blast
  from image_trailing_length [THEN conjunct2, rule_format, OF e]
  obtain sbuf' where s: "loop_pass pl0 rc0 5 6
         (RdData ((frame (fBuffer (createOp client0 2 tf0 7)))\<lparr>payload := GlyphU glyphA\<rparr>) [])
         sbuf0
        = ([SysRead 5 (sizeof_Op pl0), SysWrite 6 (sizeof_Op pl0 + 96)],
           Next (sizeof_Op pl0 + 96) sbuf')"
     and f: "frame (fBuffer c') = frame sbuf'"
    by auto
  from s have g: "glyph pl0 (payload (frame sbuf')) = glyphA\<lparr>fImage := 4096 + 192\<rparr>"
    by (auto simp: loop_pass_data dispatch_op2 createOp_def Let_def sbuf0_def sizeof_Op_pl0)
  show ?thesis
    using e s f g by (auto simp: sizeof_Op_pl0 glyphA_def)
qed

subsection \<open>Unknown opcode\<close>

text \<open>
  C3. The claim is that a frame with an opcode outside 0..3 makes the loop abort and
  write nothing. The code asserts the string literal \<open>"Bad op"\<close>, which is true, so
  with or without assertions the pass goes on to the \<open>write\<close>: for opcode 4 the loop
  reads the frame and writes it back, 192 bytes on the sample platform.
\<close>

theorem unknown_opcode_is_answered:
  "loop_pass (pl0\<lparr>SK_DEBUG := debug\<rparr>) rc0 5 6 (RdData bad_op []) sbuf0
     = ([SysRead 5 192, SysWrite 6 192], Next 192 (sbuf0\<lparr>frame := bad_op\<rparr>))"
  by (simp add: loop_pass_data dispatch_unknown bad_op_def frame0_def sizeof_Op_def pl0_def)

subsection \<open>The reads of the client\<close>




subsection \<open>Trailing data larger than the buffer\<close>

text \<open>
  C5. The claim is that a trailing length beyond the buffer capacity makes the receiving
  role abort. The code has no such check (both places carry the comment "TODO: check
  for buffer overflow"): for a glyph of 4096 bytes a row and 1024 rows the pass does not
  abort and writes 192 + 4194304 bytes from a buffer of \<open>kBufferSize\<close> = 4194304.
\<close>

theorem oversized_image_is_sent:
  "\<exists>buf'. loop_pass pl0 rc0 5 6 (RdData huge_request []) sbuf0
            = ([SysRead 5 192, SysWrite 6 (192 + 4194304)], Next (192 + 4194304) buf')
     \<and> kBufferSize < 192 + 4194304"
  using huge_request_pass by (simp add: kBufferSize_def kPageSize_def)

subsection \<open>Short reads\<close>

text \<open>
  C6. The claim is that the client retries short reads until the frame and its trailing
  bytes are complete. The code issues one \<open>read\<close> and ignores its value. The server
  answers the request for a glyph of 400 bytes a row and 250 rows with the frame and
  100000 pixels \<open>0xFF\<close>; a pipe of 65536 bytes hands the client's read the frame and
  the first 65344 of them. \<open>generateImage\<close> reads no more and copies 100000 bytes to
  the caller: from index 65344 on they are old bytes of its buffer (\<open>0xAA\<close>), where
  the provider's image has \<open>0xFF\<close>.
\<close>

theorem short_read_is_not_retried:
  "\<exists>pixels c'.
      generateImage pl0 (dispatch_peer pl0 rc0 5 6 sbuf0 65344) client0 tf0 7 glyph_big
        = Some (pixels, c', [SysWrite 4 192, SysRead 3 4194304])
    \<and> length pixels = 100000 \<and> pixels ! 65343 = 255 \<and> pixels ! 65344 = 170
    \<and> getImage (rc0 (SkScalerContextRecDescriptor 7) 42) glyph_big ! 65344 = 255"
  apply (simp add: generateImage_def dispatch_peer_def loop_pass_data dispatch_op2
      createOp_def written_def Let_def sys_read_def)
  apply (simp add: rc0_def sc0_def glyph_big_def client0_def sbuf0_def sizeof_Op_pl0
      sizeof_fBuffer_def kPageSize_def length_load nth_load store_apply)
  done

subsection \<open>End of stream\<close>

text \<open>
  C7. When the read of the dispatch loop returns 0 (the peer closed its end), after any
  number of served requests, the loop ends without error: nothing is dispatched or
  written after that read, whatever the pipe would deliver next; \<open>renderer\<close> closes its
  read end and its write end and returns 0.
\<close>

theorem eof_ends_loop:
  assumes "send_picture writeFd ws picSize 0 = Some (tr1, True)"
  shows "\<exists>tr. renderer pl rc readFd writeFd picSize ws
                (map (\<lambda>(f, bs). RdData f bs) reqs @ RdEof # rest) buf
              = Some (SysWrite writeFd (sizeof_size_t pl) # tr1 @ tr
                        @ [SysRead readFd (sizeof_Op pl), SysClose readFd, SysClose writeFd],
                      Returned 0)
            \<and> length tr = 2 * length reqs \<and> (\<forall>fd. SysClose fd \<notin> set tr)"
proof -
  obtain tr where
    "op_loop pl rc readFd writeFd (map (\<lambda>(f, bs). RdData f bs) reqs @ RdEof # rest) buf
          = Some (tr @ [SysRead readFd (sizeof_Op pl)], Broke)"
    "length tr = 2 * length reqs" "\<forall>fd. SysClose fd \<notin> set tr"
    using op_loop_stop [of RdEof] by blast
  with assms show ?thesis by (simp add: renderer_def)
qed

theorem eof_ends_loop_witness:
  "send_picture 4 [4, 6] 10 0 = Some ([SysWrite 4 10, SysWrite 4 6], True)
   \<and> renderer pl0 rc0 5 4 10 [4, 6] [RdData bad_op [], RdEof, RdData bad_op []] sbuf0
     = Some ([SysWrite 4 8, SysWrite 4 10, SysWrite 4 6, SysRead 5 192, SysWrite 4 192,
              SysRead 5 192, SysClose 5, SysClose 4], Returned 0)
   \<and> (\<exists>tr. [SysWrite 4 8, SysWrite 4 10, SysWrite 4 6, SysRead 5 192, SysWrite 4 192,
              SysRead 5 192, SysClose 5, SysClose 4]
         = SysWrite 4 (sizeof_size_t pl0) # [SysWrite 4 10, SysWrite 4 6] @ tr
             @ [SysRead 5 (sizeof_Op pl0), SysClose 5, SysClose 4]
        \<and> length tr = 2)"
  using eof_ends_loop [OF send_picture_two, of pl0 rc0 5 "[(bad_op, [])]"
      "[RdData bad_op []]" sbuf0]
    send_picture_two renderer_run [of RdEof]
  by auto

subsection \<open>What the server leaves untouched\<close>

text \<open>
  C8. For a request with opcode 0 or 1 the frame the server writes back has the opcode,
  the font id and the descriptor of the request: only the union differs. So the frame
  the client holds after \<open>generateFontMetrics\<close> or \<open>generateMetrics\<close> against the
  loop is the frame it sent, up to the union.
\<close>

theorem response_keeps_header:
  "(op f = 0 \<or> op f = 1 \<longrightarrow>
      (\<exists>n sbuf'. loop_pass pl rc readFd writeFd (RdData f bs) sbuf
          = ([SysRead readFd (sizeof_Op pl), SysWrite writeFd n], Next n sbuf')
        \<and> op (frame sbuf') = op f
        \<and> typeface_id (frame sbuf') = typeface_id f
        \<and> descriptor (frame sbuf') = descriptor f))
   \<and> (generateFontMetrics pl (dispatch_peer pl rc readFd writeFd sbuf k) c tf rec
         = Some (m, c', tr) \<longrightarrow>
       op (frame (fBuffer c')) = 0
        \<and> typeface_id (frame (fBuffer c')) = fontID tf
        \<and> descriptor (frame (fBuffer c')) = SkScalerContextRecDescriptor rec
        \<and> frame (fBuffer c')
            = (frame (fBuffer (createOp c 0 tf rec)))\<lparr>payload := payload (frame (fBuffer c'))\<rparr>)
   \<and> (generateMetrics pl (dispatch_peer pl rc readFd writeFd sbuf k) c tf rec g
         = Some (g', c'', tr') \<longrightarrow>
       op (frame (fBuffer c'')) = 1
        \<and> typeface_id (frame (fBuffer c'')) = fontID tf
        \<and> descriptor (frame (fBuffer c'')) = SkScalerContextRecDescriptor rec
        \<and> frame (fBuffer c'')
            = (frame (fBuffer (createOp c 1 tf rec)))\<lparr>payload := GlyphU g\<rparr>
                \<lparr>payload := payload (frame (fBuffer c''))\<rparr>)"
proof (intro conjI impI)
  assume "op f = 0 \<or> op f = 1"
  then show "\<exists>n sbuf'. loop_pass pl rc readFd writeFd (RdData f bs) sbuf
          = ([SysRead readFd (sizeof_Op pl), SysWrite writeFd n], Next n sbuf')
        \<and> op (frame sbuf') = op f
        \<and> typeface_id (frame sbuf') = typeface_id f
        \<and> descriptor (frame sbuf') = descriptor f"
    by (auto simp: loop_pass_data dispatch_op0 dispatch_op1)
next
  assume "generateFontMetrics pl (dispatch_peer pl rc readFd writeFd sbuf k) c tf rec
         = Some (m, c', tr)"
  then have c': "fBuffer c' = (fBuffer (createOp c 0 tf rec))
      \<lparr>frame := (frame (fBuffer (createOp c 0 tf rec)))\<lparr>payload :=
          FontMetricsU (getFontMetrics (rc (SkScalerContextRecDescriptor rec) (fontID tf)))\<rparr>\<rparr>"
    by (auto simp: generateFontMetrics_def dispatch_peer_def loop_pass_data dispatch_op0
        createOp_def written_def sys_read_def Let_def load_def store_Nil)
  show "op (frame (fBuffer c')) = 0" by (simp add: c' createOp_def)
  show "typeface_id (frame (fBuffer c')) = fontID tf" by (simp add: c' createOp_def)
  show "descriptor (frame (fBuffer c')) = SkScalerContextRecDescriptor rec"
    by (simp add: c' createOp_def)
  show "frame (fBuffer c')
            = (frame (fBuffer (createOp c 0 tf rec)))\<lparr>payload := payload (frame (fBuffer c'))\<rparr>"
    by (simp add: c')
next
  assume "generateMetrics pl (dispatch_peer pl rc readFd writeFd sbuf k) c tf rec g
         = Some (g', c'', tr')"
  then have "\<exists>u. fBuffer c'' = (fBuffer (createOp c 1 tf rec))
      \<lparr>frame := (frame (fBuffer (createOp c 1 tf rec)))\<lparr>payload := u\<rparr>\<rparr>"
    by (auto simp: generateMetrics_def dispatch_peer_def loop_pass_data dispatch_op1
        createOp_def written_def sys_read_def Let_def load_def store_Nil)
  then obtain u where c'': "fBuffer c'' = (fBuffer (createOp c 1 tf rec))
      \<lparr>frame := (frame (fBuffer (createOp c 1 tf rec)))\<lparr>payload := u\<rparr>\<rparr>" by blast
  show "op (frame (fBuffer c'')) = 1" by (simp add: c'' createOp_def)
  show "typeface_id (frame (fBuffer c'')) = fontID tf" by (simp add: c'' createOp_def)
  show "descriptor (frame (fBuffer c'')) = SkScalerContextRecDescriptor rec"
    by (simp add: c'' createOp_def)
  show "frame (fBuffer c'')
            = (frame (fBuffer (createOp c 1 tf rec)))\<lparr>payload := GlyphU g\<rparr>
                \<lparr>payload := payload (frame (fBuffer c''))\<rparr>"
    by (simp add: c'')
qed

theorem response_keeps_header_witness:
  "\<exists>sbuf' c' c''.
      op frame0 = 0
    \<and> loop_pass pl0 rc0 5 6 (RdData frame0 []) sbuf0
         = ([SysRead 5 192, SysWrite 6 192], Next 192 sbuf')
    \<and> op (frame sbuf') = 0 \<and> typeface_id (frame sbuf') = 0
    \<and> descriptor (frame sbuf') = SkScalerContextRecDescriptor 0
    \<and> generateFontMetrics pl0 (dispatch_peer pl0 rc0 5 6 sbuf0 0) client0 tf0 7
         = Some (\<lparr>ascent = 10, descent = - 2, leading = 1\<rparr>, c',
                 [SysWrite 4 192, SysRead 3 4194304])
    \<and> op (frame (fBuffer c')) = 0 \<and> typeface_id (frame (fBuffer c')) = 42
    \<and> descriptor (frame (fBuffer c')) = SkScalerContextRecDescriptor 7
    \<and> generateMetrics pl0 (dispatch_peer pl0 rc0 5 6 sbuf0 0) client0 tf0 7 glyph_small
         = Some (glyph_small\<lparr>fHeight := 12, rowBytes := 8\<rparr>, c'',
                 [SysWrite 4 192, SysRead 3 4194304])
    \<and> op (frame (fBuffer c'')) = 1 \<and> typeface_id (frame (fBuffer c'')) = 42
    \<and> descriptor (frame (fBuffer c'')) = SkScalerContextRecDescriptor 7"
proof -
  have a: "op frame0 = 0 \<or> op frame0 = 1" by (simp add: frame0_def)
  obtain c' where f:
    "generateFontMetrics pl0 (dispatch_peer pl0 rc0 5 6 sbuf0 0) client0 tf0 7
     = Some (\<lparr>ascent = 10, descent = - 2, leading = 1\<rparr>, c',
             [SysWrite 4 192, SysRead 3 4194304])"
    using font_metrics_exchange by blast
  obtain c'' where g:
    "generateMetrics pl0 (dispatch_peer pl0 rc0 5 6 sbuf0 0) client0 tf0 7 glyph_small
     = Some (glyph_small\<lparr>fHeight := 12, rowBytes := 8\<rparr>, c'',
             [SysWrite 4 192, SysRead 3 4194304])"
    using metrics_exchange by blast
  from response_keeps_header [THEN conjunct1, rule_format, OF a, of pl0 rc0 5 6 "[]" sbuf0]
  obtain n sbuf' where s: "loop_pass pl0 rc0 5 6 (RdData frame0 []) sbuf0
          = ([SysRead 5 (sizeof_Op pl0), SysWrite 6 n], Next n sbuf')"
        "op (frame sbuf') = op frame0"
        "typeface_id (frame sbuf') = typeface_id frame0"
        "descriptor (frame sbuf') = descriptor frame0" by blast
  from s(1) have n: "n = 192"
    by (auto simp: loop_pass_data dispatch_op0 frame0_def sizeof_Op_pl0)
  from response_keeps_header [THEN conjunct2, THEN conjunct1, rule_format, OF f]
       response_keeps_header [THEN conjunct2, THEN conjunct2, rule_format, OF g]
       s n f g
  show ?thesis by (auto simp: sizeof_Op_pl0 frame0_def tf0_def)
qed

subsection \<open>A failed read or write\<close>

text \<open>
  C9. The claim is that a role that sees a pipe error closes its descriptors, ends its
  loop, and the process reports the failure by a non-zero exit status. The code does not
  report it. With the pipes at descriptors 3, 4 and 5, 6: when the first read of the
  dispatch loop fails, \<open>renderer\<close> closes 5 and 4 and returns 0, and \<open>main\<close> returns
  0. When a write of the picture fails, \<open>renderer\<close> returns 1 without closing
  anything, \<open>start_render\<close> drops that value, and \<open>main\<close> returns 0 again.
\<close>

theorem failed_transport_exits_with_0:
  "renderer pl0 rc0 5 4 0 [] [RdError] sbuf0
     = Some ([SysWrite 4 8, SysRead 5 192, SysClose 5, SysClose 4], Returned 0)
   \<and> main pl0 rc0 0 (3, 4) 0 (5, 6) 1234 None 0 [] [RdError] sbuf0 = Some (Returned 0)
   \<and> renderer pl0 rc0 5 4 10 [4, - 1] [] sbuf0
     = Some ([SysWrite 4 8, SysWrite 4 10, SysWrite 4 6], Returned 1)
   \<and> main pl0 rc0 0 (3, 4) 0 (5, 6) 1234 None 10 [4, - 1] [] sbuf0 = Some (Returned 0)"
  by (simp add: main_def start_render_def renderer_def loop_pass_stop sizeof_Op_pl0)
     (simp add: pl0_def)

subsection \<open>Responses without trailing bytes\<close>

text \<open>
  C10. For a request with opcode 0 or 1 the server's write is of exactly
  \<open>sizeof(Op)\<close> bytes, so no trailing byte follows the frame; a pass that writes any
  other number of bytes served opcode 2 or 3.
\<close>

theorem fixed_size_responses:
  "(op f = 0 \<or> op f = 1 \<longrightarrow>
      (\<exists>buf'. loop_pass pl rc readFd writeFd (RdData f bs) buf
          = ([SysRead readFd (sizeof_Op pl), SysWrite writeFd (sizeof_Op pl)],
             Next (sizeof_Op pl) buf')
        \<and> snd (written pl buf' (sizeof_Op pl)) = []))
   \<and> (\<forall>tr n buf'. loop_pass pl rc readFd writeFd (RdData f bs) buf = (tr, Next n buf')
          \<and> n \<noteq> sizeof_Op pl \<longrightarrow> op f = 2 \<or> op f = 3)"
proof (intro conjI impI allI)
  assume "op f = 0 \<or> op f = 1"
  then show "\<exists>buf'. loop_pass pl rc readFd writeFd (RdData f bs) buf
          = ([SysRead readFd (sizeof_Op pl), SysWrite writeFd (sizeof_Op pl)],
             Next (sizeof_Op pl) buf')
        \<and> snd (written pl buf' (sizeof_Op pl)) = []"
    by (auto simp: loop_pass_data dispatch_op0 dispatch_op1 written_def load_def)
next
  fix tr n buf'
  assume a: "loop_pass pl rc readFd writeFd (RdData f bs) buf = (tr, Next n buf')
          \<and> n \<noteq> sizeof_Op pl"
  then have "dispatch pl rc (buf\<lparr>frame := f\<rparr>) = Continue n buf'"
    by (cases "dispatch pl rc (buf\<lparr>frame := f\<rparr>)") (simp_all add: loop_pass_data)
  with a show "op f = 2 \<or> op f = 3"
    using dispatch_size [of pl rc "buf\<lparr>frame := f\<rparr>" n buf'] by simp
qed

theorem fixed_size_responses_witness:
  "op frame0 = 0
   \<and> (\<exists>buf'. loop_pass pl0 rc0 5 6 (RdData frame0 []) sbuf0
          = ([SysRead 5 192, SysWrite 6 192], Next 192 buf')
        \<and> snd (written pl0 buf' 192) = [])
   \<and> (\<exists>tr n buf'. loop_pass pl0 rc0 5 6 (RdData huge_request []) sbuf0 = (tr, Next n buf')
        \<and> n \<noteq> sizeof_Op pl0)
   \<and> (op huge_request = 2 \<or> op huge_request = 3)"
proof -
  have a: "op frame0 = 0 \<or> op frame0 = 1" by (simp add: frame0_def)
  obtain buf' where b: "loop_pass pl0 rc0 5 6 (RdData huge_request []) sbuf0
     = ([SysRead 5 192, SysWrite 6 (192 + 4194304)], Next (192 + 4194304) buf')"
    using huge_request_pass by blast
  then have c: "loop_pass pl0 rc0 5 6 (RdData huge_request []) sbuf0
     = ([SysRead 5 192, SysWrite 6 (192 + 4194304)], Next (192 + 4194304) buf')
      \<and> 192 + 4194304 \<noteq> sizeof_Op pl0"
    by (simp add: sizeof_Op_pl0)
  from fixed_size_responses [THEN conjunct1, rule_format, OF a, of pl0 rc0 5 6 "[]" sbuf0]
       fixed_size_responses [THEN conjunct2, rule_format, OF c] a c
  show ?thesis by (auto simp: sizeof_Op_pl0 frame0_def)
qed

end
